theory Spec2Isabelle
  imports Complex_Main
begin

section \<open>The physics task scheduler of apps/openmw/mwphysics/mtphysics.cpp\<close>

text \<open>
  Conventions of the embedding.
  \<^item> A value of the C++ type \<open>float\<close> or \<open>double\<close> is the real number it holds.
    An arithmetic operation of the code is the exact operation followed by the
    rounding of its format, to nearest with ties to even: \<open>fl32\<close> for binary32,
    \<open>fl64\<close> for binary64. Comparisons, \<open>std::max\<close>, \<open>std::min\<close> and \<open>std::ceil\<close>
    are exact. Infinities and NaN are not values of the model: a division by
    zero has no result (\<open>None\<close>), and a result beyond the largest finite number
    stays the rounded real where the machine gives an infinity (the code only
    compares such a value or converts it to \<open>int\<close>, and the conversion has no
    result in either reading).
  \<^item> A C++ \<open>int\<close> is an \<open>int\<close> here. The conversion of a floating-point value
    to \<open>int\<close> truncates toward zero and is undefined in C++ when the truncated
    value is outside the 32-bit range: \<open>float_to_int\<close> returns \<open>None\<close> there. The
    integer arithmetic of the modelled code stays far inside the range.
  \<^item> An actor handle (\<open>std::shared_ptr<Actor>\<close>, \<open>std::weak_ptr<Actor>\<close>, or the
    raw pointer) is the address of the actor, a natural number.
\<close>

subsection \<open>Floating-point rounding\<close>

text \<open>Rounding to the nearest integer, a tie going to the even one.\<close>

definition rne :: "real \<Rightarrow> int" where
  "rne x =
     (let n = \<lfloor>x\<rfloor>; r = x - real_of_int n
      in if r < 1 / 2 then n
         else if 1 / 2 < r then n + 1
         else if even n then n else n + 1)"

definition pow2 :: "int \<Rightarrow> real" where
  "pow2 k = (if 0 \<le> k then 2 ^ nat k else 1 / 2 ^ nat (- k))"

text \<open>The binary exponent of a non-zero number: \<open>pow2 e \<le> \<bar>x\<bar> < pow2 (e + 1)\<close>.\<close>

definition bexp :: "real \<Rightarrow> int" where
  "bexp x = \<lfloor>log 2 \<bar>x\<bar>\<rfloor>"

text \<open>
  Rounding to the binary format with \<open>p\<close> significant bits and least exponent
  \<open>emin\<close>: the nearest multiple of the unit in the last place of the binade of
  \<open>x\<close> (of the subnormal spacing below \<open>pow2 emin\<close>).
\<close>

definition flp :: "int \<Rightarrow> int \<Rightarrow> real \<Rightarrow> real" where
  "flp p emin x =
     (if x = 0 then 0
      else (let e = max (bexp x) emin;
                ulp = pow2 (e - p + 1)
            in real_of_int (rne (x / ulp)) * ulp))"

definition fl32 :: "real \<Rightarrow> real" where
  "fl32 = flp 24 (- 126)"

definition fl64 :: "real \<Rightarrow> real" where
  "fl64 = flp 53 (- 1022)"

text \<open>The conversion of a floating-point value to \<open>int\<close>.\<close>

definition float_to_int :: "real \<Rightarrow> int option" where
  "float_to_int x =
     (let n = (if 0 \<le> x then \<lfloor>x\<rfloor> else \<lceil>x\<rceil>)
      in if - (2 ^ 31) \<le> n \<and> n < 2 ^ 31 then Some n else None)"

type_synonym Actor = nat

subsection \<open>Collaborators declared outside mtphysics.cpp\<close>

text \<open>
  Modelled from the spec: the budget class (the type of \<open>mBudget\<close> and
  \<open>mAsyncBudget\<close>; its declaration is not part of the file). The spec gives it a
  current smoothed estimate, \<open>get()\<close> returning it and \<open>reset(initialValue)\<close>
  setting it; a freshly constructed budget holds its constructor's argument.
\<close>

record Budget =
  estimate :: real

definition Budget_get :: "Budget \<Rightarrow> real" where
  "Budget_get b = estimate b"

definition Budget_reset :: "real \<Rightarrow> Budget \<Rightarrow> Budget" where
  "Budget_reset initialValue b = b\<lparr>estimate := initialValue\<rparr>"

text \<open>
  Modelled from the spec: the collision world is an opaque shared resource. Of
  its state the model keeps the answer of the line-of-sight ray (does the ray
  from the eye level of the first actor to that of the second hit terrain, world
  or door geometry) and a counter of the ray tests issued, the observable the
  spec names for the cache.
\<close>

record btCollisionWorld =
  rayHits :: "Actor \<Rightarrow> Actor \<Rightarrow> bool"
  rayTestCalls :: nat

text \<open>
  Modelled from the spec: a line-of-sight request holds the pair of (weak)
  actor references, the cached result, the age and the staleness flag; it is
  looked up by the unordered pair, so the constructor stores the two actors in
  ascending order and two requests are equal when their pairs are. A new
  request has age 0 and is not stale. (The field \<open>mActors\<close> of the request is
  \<open>mActorPair\<close> here, the scheduler has a field \<open>mActors\<close> of its own.)
\<close>

record LOSRequest =
  mActorPair :: "Actor \<times> Actor"
  mResult :: bool
  mStale :: bool
  mAge :: int



text \<open>
  The per-actor frame data: the fields that mtphysics.cpp itself reads or
  writes (\<open>handleFall\<close>, \<open>isUnderWater\<close>).
\<close>

record ActorFrameData =
  mPositionZ :: real
  mOldHeight :: real
  mSwimLevel :: real
  mSlowFall :: real
  mFallHeight :: real
  mFlying :: bool
  mWasOnGround :: bool
  mIsOnGround :: bool
  mNeedLand :: bool

subsection \<open>The scheduler's state\<close>

record PhysicsTaskScheduler =
  mDefaultPhysicsDt :: real
  mPhysicsDt :: real
  mTimeAccum :: real
  mCollisionWorld :: btCollisionWorld
  mNumThreads :: int
  mThreadSafeBullet :: bool
  mActors :: "Actor list"
  mActorsFrameData :: "ActorFrameData list"
  mRemainingSteps :: int
  mLOSCache :: "LOSRequest list"
  mLOSCacheExpiry :: int
  mNewFrame :: bool
  mAdvanceSimulation :: bool
  mNextLOS :: nat
  mBudget :: Budget
  mAsyncBudget :: Budget

subsection \<open>Config::computeNumThreads and the constructor\<close>

text \<open>
  \<open>wantedThread\<close> is the setting "async num threads", \<open>maxSupportedThreads\<close>
  the size of the ray test stacks of a fresh Bullet broadphase: both are inputs
  of the model. The function returns the number of threads, the flag it writes
  through its reference parameter, and what it sent to the log.
\<close>

datatype Debug = Warning

definition computeNumThreads :: "int \<Rightarrow> int \<Rightarrow> int \<times> bool \<times> (Debug \<times> string) list" where
  "computeNumThreads wantedThread maxSupportedThreads =
     (let threadSafeBullet = (maxSupportedThreads > 1)
      in if \<not> threadSafeBullet \<and> wantedThread > 1
         then (1, threadSafeBullet,
               [(Warning,
                 ''Bullet was not compiled with multithreading support, 1 async thread will be used'')])
         else (max 0 wantedThread, threadSafeBullet, []))"

text \<open>
  The constructor's member initialisers and body, for the fields of the model;
  \<open>losCacheSetting\<close> is the setting "lineofsight keep inactive cache".
\<close>

definition PhysicsTaskScheduler_ctor ::
  "real \<Rightarrow> btCollisionWorld \<Rightarrow> int \<Rightarrow> int \<Rightarrow> int \<Rightarrow> PhysicsTaskScheduler" where
  "PhysicsTaskScheduler_ctor physicsDt collisionWorld wantedThread maxSupportedThreads
       losCacheSetting =
     (let (numThreads, threadSafeBullet, logged) =
            computeNumThreads wantedThread maxSupportedThreads
      in \<lparr>mDefaultPhysicsDt = physicsDt,
          mPhysicsDt = physicsDt,
          mTimeAccum = 0,
          mCollisionWorld = collisionWorld,
          mNumThreads = numThreads,
          mThreadSafeBullet = threadSafeBullet,
          mActors = [],
          mActorsFrameData = [],
          mRemainingSteps = 0,
          mLOSCache = [],
          mLOSCacheExpiry = (if numThreads \<ge> 1 then losCacheSetting else 0),
          mNewFrame = False,
          mAdvanceSimulation = False,
          mNextLOS = 0,
          mBudget = \<lparr>estimate = physicsDt\<rparr>,
          mAsyncBudget = \<lparr>estimate = 0\<rparr>\<rparr>)"

subsection \<open>calculateStepConfig\<close>

text \<open>
  The measured budget ratio, as the code has it in the \<open>float\<close> local
  \<open>budgetMeasurement\<close> after its first two statements: the maximum of the two
  budgets converted to \<open>float\<close>, then \<open>budgetMeasurement /= mDefaultPhysicsDt\<close>.
  The quotient is infinite or NaN when \<open>mDefaultPhysicsDt\<close> is 0: the ratio and
  what is computed from it are read for a target step other than 0 only, and
  \<open>calculateStepConfig\<close> has no result otherwise.
\<close>

definition budgetRatio :: "PhysicsTaskScheduler \<Rightarrow> real" where
  "budgetRatio s =
     fl32 (fl32 (max (Budget_get (mBudget s)) (Budget_get (mAsyncBudget s)))
             / mDefaultPhysicsDt s)"

text \<open>\<open>budgetMeasurement\<close> after \<open>std::max(0.00001f, budgetMeasurement)\<close>.\<close>

definition budgetMeasurement :: "PhysicsTaskScheduler \<Rightarrow> real" where
  "budgetMeasurement s = max (fl32 (1 / 100000)) (budgetRatio s)"

text \<open>
  The local \<open>maxAllowedSteps\<close> when the fallback test reads it: 2, then 1 when the
  measurement is above the \<open>double\<close> 0.95, then \<open>std::ceil(1.0/budgetMeasurement)\<close>,
  a \<open>double\<close> division, when it is below 0.5, then at most 10. (The value
  converted to \<open>int\<close> is a whole number between 2 and 131072, lemma
  \<open>maxAllowedSteps_ceil_range\<close>: the conversion is defined.)
\<close>

definition maxAllowedSteps :: "PhysicsTaskScheduler \<Rightarrow> int" where
  "maxAllowedSteps s =
     (let m0 = 2;
          m1 = (if budgetMeasurement s > fl64 (95 / 100) then 1 else m0);
          m2 = (if budgetMeasurement s < 1 / 2 then \<lceil>fl64 (1 / budgetMeasurement s)\<rceil>
                else m1)
      in min 10 m2)"

text \<open>
  \<open>calculateStepConfig\<close>. There is no result when \<open>mDefaultPhysicsDt\<close> is 0 or
  when the quotient \<open>timeAccum / mDefaultPhysicsDt\<close>, a \<open>float\<close> division, does
  not convert to \<open>int\<close>.
\<close>

definition calculateStepConfig :: "PhysicsTaskScheduler \<Rightarrow> real \<Rightarrow> (int \<times> real) option" where
  "calculateStepConfig s timeAccum =
     (if mDefaultPhysicsDt s = 0 then None
      else case float_to_int (fl32 (timeAccum / mDefaultPhysicsDt s)) of
             None \<Rightarrow> None
           | Some numSteps \<Rightarrow>
               (let actualDelta = mDefaultPhysicsDt s
                in if numSteps > maxAllowedSteps s
                   then Some (maxAllowedSteps s,
                          max (fl32 (timeAccum / fl32 (real_of_int (maxAllowedSteps s + 1))))
                              (mDefaultPhysicsDt s))
                   else Some (numSteps, actualDelta)))"

text \<open>
  The two statements of \<open>applyQueuedMovements\<close> that consume the accumulated
  time (lines 233 and 234): \<open>auto [numSteps, newDelta] =
  calculateStepConfig(timeAccum); timeAccum -= numSteps*newDelta;\<close>. The result
  is the step count, the step size and the accumulated time left for the next
  frame; the product converts \<open>numSteps\<close> to \<open>float\<close> and is a \<open>float\<close> product.
\<close>

definition applyQueuedMovements_timeAccum ::
  "PhysicsTaskScheduler \<Rightarrow> real \<Rightarrow> (int \<times> real \<times> real) option" where
  "applyQueuedMovements_timeAccum s timeAccum =
     (case calculateStepConfig s timeAccum of
        None \<Rightarrow> None
      | Some (numSteps, newDelta) \<Rightarrow>
          Some (numSteps, newDelta,
                fl32 (timeAccum - fl32 (fl32 (real_of_int numSteps) * newDelta))))"

subsection \<open>resetSimulation\<close>

text \<open>
  The actors of the map handed to \<open>resetSimulation\<close> are objects of the class
  \<open>Actor\<close>, declared elsewhere: their state is a type parameter, and the two
  methods called on each of them are parameters of the model. The map is the
  list of its entries in key order; the function returns the scheduler and the
  actors as it leaves them.
\<close>

definition resetSimulation ::
  "('actor \<Rightarrow> 'actor) \<Rightarrow> ('actor \<Rightarrow> 'actor) \<Rightarrow> ('key \<times> 'actor) list \<Rightarrow>
     PhysicsTaskScheduler \<Rightarrow> PhysicsTaskScheduler \<times> ('key \<times> 'actor) list" where
  "resetSimulation updatePosition updateCollisionObjectPosition actors s =
     (s\<lparr>mBudget := Budget_reset (mDefaultPhysicsDt s) (mBudget s),
        mAsyncBudget := Budget_reset 0 (mAsyncBudget s),
        mActors := [],
        mActorsFrameData := []\<rparr>,
      map (\<lambda>(key, actor). (key, updateCollisionObjectPosition (updatePosition actor))) actors)"

subsection \<open>The line-of-sight cache\<close>


text \<open>
  \<open>hasLineOfSight\<close> issues one ray test on the collision world and answers
  whether the ray hit nothing.
\<close>

definition hasLineOfSight :: "Actor \<Rightarrow> Actor \<Rightarrow> btCollisionWorld \<Rightarrow> bool \<times> btCollisionWorld" where
  "hasLineOfSight actor1 actor2 w =
     (\<not> rayHits w actor1 actor2, w\<lparr>rayTestCalls := Suc (rayTestCalls w)\<rparr>)"


text \<open>
  The body of the loop of \<open>refreshLOSCache\<close> on one request. \<open>alive\<close> says
  which actors still exist, that is, for which a weak reference locks to a
  non-null pointer. The test \<open>req.mAge++ > mLOSCacheExpiry\<close> reads the age
  before the increment, and the increment happens on both branches.
\<close>

definition refreshRequest ::
  "(Actor \<Rightarrow> bool) \<Rightarrow> int \<Rightarrow> LOSRequest \<Rightarrow> btCollisionWorld \<Rightarrow>
     LOSRequest \<times> btCollisionWorld" where
  "refreshRequest alive expiry req w =
     (let (actorPtr1, actorPtr2) = mActorPair req;
          age = mAge req;
          req1 = req\<lparr>mAge := age + 1\<rparr>
      in if age > expiry \<or> \<not> alive actorPtr1 \<or> \<not> alive actorPtr2
         then (req1\<lparr>mStale := True\<rparr>, w)
         else (let (res, w1) = hasLineOfSight actorPtr1 actorPtr2 w
               in (req1\<lparr>mResult := res\<rparr>, w1)))"

definition refreshJob ::
  "(Actor \<Rightarrow> bool) \<Rightarrow> nat \<Rightarrow> PhysicsTaskScheduler \<Rightarrow> PhysicsTaskScheduler" where
  "refreshJob alive job s =
     (let (req, w) = refreshRequest alive (mLOSCacheExpiry s) (mLOSCache s ! job)
                       (mCollisionWorld s)
      in s\<lparr>mCollisionWorld := w, mLOSCache := (mLOSCache s)[job := req]\<rparr>)"

text \<open>
  The loop of \<open>refreshLOSCache\<close>, run by one thread: each turn takes the next
  job from the cursor \<open>mNextLOS\<close> (\<open>fetch_add(1)\<close>) and stops at the first job
  that is not below \<open>numLOS\<close>.
\<close>

function refreshLOSCache_loop ::
  "(Actor \<Rightarrow> bool) \<Rightarrow> nat \<Rightarrow> PhysicsTaskScheduler \<Rightarrow> PhysicsTaskScheduler" where
  "refreshLOSCache_loop alive numLOS s =
     (let job = mNextLOS s;
          s1 = s\<lparr>mNextLOS := job + 1\<rparr>
      in if job < numLOS then refreshLOSCache_loop alive numLOS (refreshJob alive job s1)
         else s1)"
  by pat_completeness auto
termination
  by (relation "measure (\<lambda>(alive, numLOS, s). Suc numLOS - mNextLOS s)")
     (auto simp add: refreshJob_def Let_def split: prod.splits)

definition refreshLOSCache ::
  "(Actor \<Rightarrow> bool) \<Rightarrow> PhysicsTaskScheduler \<Rightarrow> PhysicsTaskScheduler" where
  "refreshLOSCache alive s = refreshLOSCache_loop alive (length (mLOSCache s)) s"

text \<open>\<open>afterPostSim\<close>: the erase-remove of the stale requests (the timer is not modelled).\<close>

definition afterPostSim :: "PhysicsTaskScheduler \<Rightarrow> PhysicsTaskScheduler" where
  "afterPostSim s =
     s\<lparr>mNewFrame := False, mLOSCache := filter (\<lambda>req. \<not> mStale req) (mLOSCache s)\<rparr>"

subsection \<open>syncComputation\<close>

definition isUnderWater :: "ActorFrameData \<Rightarrow> bool" where
  "isUnderWater actorData = (mPositionZ actorData < mSwimLevel actorData)"

definition handleFall :: "bool \<Rightarrow> ActorFrameData \<Rightarrow> ActorFrameData" where
  "handleFall simulationPerformed actorData =
     (let heightDiff = fl32 (mPositionZ actorData - mOldHeight actorData);
          isStillOnGround =
            (simulationPerformed \<and> mWasOnGround actorData \<and> mIsOnGround actorData)
      in if isStillOnGround \<or> mFlying actorData \<or> isUnderWater actorData
            \<or> mSlowFall actorData < 1
         then actorData\<lparr>mNeedLand := True\<rparr>
         else if heightDiff < 0
         then actorData\<lparr>mFallHeight := fl32 (mFallHeight actorData + heightDiff)\<rparr>
         else actorData)"

text \<open>
  \<open>syncComputation\<close>, the whole frame of a scheduler without worker threads
  (\<open>applyQueuedMovements\<close> calls it when \<open>mNumThreads == 0\<close>, after it has stored
  0 in \<open>mNextLOS\<close>). The movement solver and the actors are declared elsewhere:
  \<open>simulationStep\<close> is what one turn of the \<open>while\<close> loop (unstuck and move every
  actor, then \<open>updateActorsPositions\<close>) does to the frame data and the collision
  world. The loop \<open>while (mRemainingSteps--)\<close> runs \<open>mRemainingSteps\<close> turns and
  leaves -1; it has no result here for a negative count. The second loop
  indexes \<open>mActorsFrameData\<close> by the actors, and has no result when there are
  fewer frame data; its calls of \<open>updateMechanics\<close> and \<open>updateActor\<close> write to
  the actors only and are left out. The function ends with \<open>refreshLOSCache()\<close>:
  it has no call of \<open>afterPostSim\<close>.
\<close>

definition syncComputation ::
  "(ActorFrameData list \<times> btCollisionWorld \<Rightarrow> ActorFrameData list \<times> btCollisionWorld) \<Rightarrow>
     (Actor \<Rightarrow> bool) \<Rightarrow> PhysicsTaskScheduler \<Rightarrow> PhysicsTaskScheduler option" where
  "syncComputation simulationStep alive s =
     (if mRemainingSteps s < 0 then None
      else (let (frameData, w) =
                  (simulationStep ^^ nat (mRemainingSteps s))
                    (mActorsFrameData s, mCollisionWorld s);
                n = length (mActors s)
            in if length frameData < n then None
               else Some (refreshLOSCache alive
                      (s\<lparr>mRemainingSteps := - 1,
                         mCollisionWorld := w,
                         mActorsFrameData :=
                           map (handleFall (mAdvanceSimulation s)) (take n frameData)
                           @ drop n frameData\<rparr>))))"

subsection \<open>Locking of the collision world\<close>

text \<open>
  What an operation does with \<open>mCollisionWorldMutex\<close> and the collision world,
  in order: calls of the mutex's member functions, and calls into the world
  (named by the callee). A scoped lock brackets the rest of its block.
\<close>

datatype MutexCall = mutex_lock | mutex_lock_shared | mutex_unlock | mutex_unlock_shared

datatype WorldStep = Mutex MutexCall | World string

definition MaybeSharedLock :: "bool \<Rightarrow> WorldStep list \<Rightarrow> WorldStep list" where
  "MaybeSharedLock mCanBeSharedLock block =
     (if mCanBeSharedLock then [Mutex mutex_lock_shared] else [Mutex mutex_lock])
     @ block
     @ (if mCanBeSharedLock then [Mutex mutex_unlock_shared] else [Mutex mutex_unlock])"

definition std_shared_lock :: "WorldStep list \<Rightarrow> WorldStep list" where
  "std_shared_lock block = [Mutex mutex_lock_shared] @ block @ [Mutex mutex_unlock_shared]"

text \<open>\<open>std::unique_lock\<close>, and \<open>std::scoped_lock\<close> on the one mutex.\<close>

definition std_unique_lock :: "WorldStep list \<Rightarrow> WorldStep list" where
  "std_unique_lock block = [Mutex mutex_lock] @ block @ [Mutex mutex_unlock]"

definition rayTest :: "PhysicsTaskScheduler \<Rightarrow> WorldStep list" where
  "rayTest s = MaybeSharedLock (mThreadSafeBullet s) [World ''rayTest'']"

definition convexSweepTest :: "PhysicsTaskScheduler \<Rightarrow> WorldStep list" where
  "convexSweepTest s = MaybeSharedLock (mThreadSafeBullet s) [World ''convexSweepTest'']"

definition contactTest :: "PhysicsTaskScheduler \<Rightarrow> WorldStep list" where
  "contactTest s = std_shared_lock [World ''contactTest'']"

definition getHitPoint :: "PhysicsTaskScheduler \<Rightarrow> WorldStep list" where
  "getHitPoint s = MaybeSharedLock (mThreadSafeBullet s) [World ''rayTestSingle'']"

definition aabbTest :: "PhysicsTaskScheduler \<Rightarrow> WorldStep list" where
  "aabbTest s = std_shared_lock [World ''aabbTest'']"

definition getAabb :: "PhysicsTaskScheduler \<Rightarrow> WorldStep list" where
  "getAabb s = std_shared_lock [World ''getAabb'']"

definition setCollisionFilterMask :: "PhysicsTaskScheduler \<Rightarrow> WorldStep list" where
  "setCollisionFilterMask s = std_unique_lock [World ''m_collisionFilterMask'']"

definition addCollisionObject :: "PhysicsTaskScheduler \<Rightarrow> WorldStep list" where
  "addCollisionObject s = std_unique_lock [World ''addCollisionObject'']"

definition removeCollisionObject :: "PhysicsTaskScheduler \<Rightarrow> WorldStep list" where
  "removeCollisionObject s = std_unique_lock [World ''removeCollisionObject'']"

text \<open>The commit of a moved AABB (\<open>updatePtrAabb\<close>, whatever the kind of the object).\<close>

definition updatePtrAabb :: "PhysicsTaskScheduler \<Rightarrow> WorldStep list" where
  "updatePtrAabb s = std_unique_lock [World ''updateSingleAabb'']"

text \<open>
  An operation acquires the exclusive lock when it calls \<open>lock()\<close> and never
  \<open>lock_shared()\<close>, the shared lock when it calls \<open>lock_shared()\<close> and never
  \<open>lock()\<close>.
\<close>

definition acquiresExclusive :: "WorldStep list \<Rightarrow> bool" where
  "acquiresExclusive steps =
     (Mutex mutex_lock \<in> set steps \<and> Mutex mutex_lock_shared \<notin> set steps)"

definition acquiresShared :: "WorldStep list \<Rightarrow> bool" where
  "acquiresShared steps =
     (Mutex mutex_lock_shared \<in> set steps \<and> Mutex mutex_lock \<notin> set steps)"

subsection \<open>States for the concrete instances\<close>

definition openWorld :: btCollisionWorld where
  "openWorld = \<lparr>rayHits = (\<lambda>a1 a2. False), rayTestCalls = 0\<rparr>"


text \<open>
  A scheduler as constructed for a target step of 1/60 s, the \<open>float\<close>
  8947849/536870912, with four worker threads on a thread-safe Bullet, and the
  same scheduler once its budgets have measured a given cost per step.
\<close>

definition freshScheduler :: PhysicsTaskScheduler where
  "freshScheduler = PhysicsTaskScheduler_ctor (8947849 / 536870912) openWorld 4 8 5"

definition withBudgets :: "real \<Rightarrow> real \<Rightarrow> PhysicsTaskScheduler \<Rightarrow> PhysicsTaskScheduler" where
  "withBudgets b ab s = s\<lparr>mBudget := \<lparr>estimate = b\<rparr>, mAsyncBudget := \<lparr>estimate = ab\<rparr>\<rparr>"

text \<open>
  The scheduler constructed on a Bullet with a single ray test stack, and a
  scheduler whose cache holds three requests of ages 3, 6 and 0 (the expiry of
  \<open>freshScheduler\<close> is 5).
\<close>

definition singleStackScheduler :: PhysicsTaskScheduler where
  "singleStackScheduler = PhysicsTaskScheduler_ctor (8947849 / 536870912) openWorld 4 1 5"

definition watchedScheduler :: PhysicsTaskScheduler where
  "watchedScheduler =
     freshScheduler\<lparr>mLOSCache :=
       [\<lparr>mActorPair = (1, 2), mResult = True, mStale = False, mAge = 3\<rparr>,
        \<lparr>mActorPair = (1, 3), mResult = False, mStale = False, mAge = 6\<rparr>,
        \<lparr>mActorPair = (2, 4), mResult = True, mStale = False, mAge = 0\<rparr>]\<rparr>"

text \<open>A frame in which every actor still exists.\<close>

definition allActorsAlive :: "Actor \<Rightarrow> bool" where
  "allActorsAlive actor = True"

text \<open>
  The scheduler constructed with the setting "async num threads" at 0, which
  runs every frame in \<open>syncComputation\<close> and whose constructor sets the expiry
  to 0; and that scheduler as \<open>applyQueuedMovements\<close> hands it to
  \<open>syncComputation\<close> for a frame of one step (cursor \<open>mNextLOS\<close> at 0), its
  cache holding the request that a call of \<open>getLineOfSight\<close> on the actors 2
  and 3 created one frame before.
\<close>

definition syncScheduler :: PhysicsTaskScheduler where
  "syncScheduler = PhysicsTaskScheduler_ctor (8947849 / 536870912) openWorld 0 8 5"

definition syncFrameStart :: PhysicsTaskScheduler where
  "syncFrameStart =
     syncScheduler\<lparr>mRemainingSteps := 1, mAdvanceSimulation := True, mNextLOS := 0,
       mLOSCache := [\<lparr>mActorPair = (2, 3), mResult = True, mStale = False, mAge = 1\<rparr>]\<rparr>"

section \<open>Properties\<close>

subsection \<open>Floating-point rounding\<close>

lemma pow2_powr: "pow2 k = 2 powr real_of_int k"
  by (simp add: pow2_def powr_real_of_int field_simps)

lemma pow2_pos [simp]: "0 < pow2 k"
  by (simp add: pow2_powr)

lemma pow2_nonneg [simp]: "0 \<le> pow2 k"
  by (simp add: less_imp_le)

lemma pow2_add: "pow2 (a + b) = pow2 a * pow2 b"
  by (simp add: pow2_powr powr_add)

lemma pow2_diff: "pow2 (a - b) = pow2 a / pow2 b"
  by (simp add: pow2_powr powr_diff)

lemma pow2_nat: "pow2 (int n) = 2 ^ n"
  by (simp add: pow2_def)

lemma pow2_mono: "a \<le> b \<Longrightarrow> pow2 a \<le> pow2 b"
  by (simp add: pow2_powr)

lemma pow2_less_iff: "pow2 a < pow2 b \<longleftrightarrow> a < b"
  by (simp add: pow2_powr)

lemma rne_of_int [simp]: "rne (real_of_int n) = n"
  by (simp add: rne_def)

lemma rne_ge_floor: "\<lfloor>x\<rfloor> \<le> rne x"
  by (simp add: rne_def Let_def)

lemma rne_le_ceiling: "rne x \<le> \<lceil>x\<rceil>"
proof -
  have "\<lfloor>x\<rfloor> \<le> \<lceil>x\<rceil>" by (simp add: floor_le_ceiling)
  moreover have "\<lfloor>x\<rfloor> + 1 \<le> \<lceil>x\<rceil>" if "real_of_int \<lfloor>x\<rfloor> < x"
    using that by (simp add: ceiling_altdef)
  ultimately show ?thesis
    by (auto simp add: rne_def Let_def)
qed

lemma rne_ge_int:
  assumes "real_of_int k \<le> x"
  shows "k \<le> rne x"
proof -
  have "k \<le> \<lfloor>x\<rfloor>" using assms by (simp add: le_floor_iff)
  also have "\<dots> \<le> rne x" by (rule rne_ge_floor)
  finally show ?thesis .
qed

lemma rne_le_int:
  assumes "x \<le> real_of_int k"
  shows "rne x \<le> k"
proof -
  have "rne x \<le> \<lceil>x\<rceil>" by (rule rne_le_ceiling)
  also have "\<dots> \<le> k" using assms by (simp add: ceiling_le_iff)
  finally show ?thesis .
qed

lemma bexp_bounds:
  assumes "x \<noteq> 0"
  shows "pow2 (bexp x) \<le> \<bar>x\<bar>" and "\<bar>x\<bar> < pow2 (bexp x + 1)"
proof -
  have pos: "0 < \<bar>x\<bar>" using assms by simp
  have "\<lfloor>log 2 \<bar>x\<bar>\<rfloor> = bexp x" by (simp add: bexp_def)
  then have "2 powr real_of_int (bexp x) \<le> \<bar>x\<bar> \<and> \<bar>x\<bar> < 2 powr (real_of_int (bexp x) + 1)"
    using pos by (simp add: floor_log_eq_powr_iff)
  then show "pow2 (bexp x) \<le> \<bar>x\<bar>" and "\<bar>x\<bar> < pow2 (bexp x + 1)"
    by (simp_all add: pow2_powr)
qed

lemma bexp_eq:
  assumes "pow2 e \<le> \<bar>x\<bar>" and "\<bar>x\<bar> < pow2 (e + 1)"
  shows "bexp x = e"
proof -
  have "0 < \<bar>x\<bar>" using assms(1) pow2_pos [of e] by linarith
  then show ?thesis
    using assms by (simp add: bexp_def floor_log_eq_powr_iff pow2_powr)
qed

lemma bexp_ge:
  assumes "pow2 k \<le> \<bar>x\<bar>"
  shows "k \<le> bexp x"
proof -
  have "0 < \<bar>x\<bar>" using assms pow2_pos [of k] by linarith
  then have "x \<noteq> 0" by auto
  from bexp_bounds(2) [OF this] assms have "pow2 k < pow2 (bexp x + 1)" by linarith
  then show ?thesis by (simp add: pow2_less_iff)
qed

lemma bexp_le:
  assumes "x \<noteq> 0" and "\<bar>x\<bar> \<le> pow2 k"
  shows "bexp x \<le> k"
proof -
  from bexp_bounds(1) [OF assms(1)] assms(2) have "pow2 (bexp x) \<le> pow2 k" by linarith
  then have "\<not> pow2 k < pow2 (bexp x)" by simp
  then show ?thesis by (simp add: pow2_less_iff)
qed

lemma flp_eq:
  assumes "pow2 e \<le> \<bar>x\<bar>" and "\<bar>x\<bar> < pow2 (e + 1)" and "emin \<le> e"
  shows "flp p emin x = real_of_int (rne (x / pow2 (e - p + 1))) * pow2 (e - p + 1)"
proof -
  have "0 < \<bar>x\<bar>" using assms(1) pow2_pos [of e] by linarith
  then have "x \<noteq> 0" by auto
  then show ?thesis
    using bexp_eq [OF assms(1,2)] assms(3) by (simp add: flp_def Let_def max_absorb1)
qed

lemma flp_nonneg:
  assumes "0 \<le> x"
  shows "0 \<le> flp p emin x"
proof -
  have "0 \<le> rne (x / pow2 k)" for k
    using assms by (intro rne_ge_int) simp
  then have "0 \<le> real_of_int (rne (x / pow2 k)) * pow2 k" for k
    by (intro mult_nonneg_nonneg) (simp_all add: less_imp_le)
  then show ?thesis
    by (simp add: flp_def Let_def)
qed

lemma flp_nonpos: "x \<le> 0 \<Longrightarrow> flp p emin x \<le> 0"
proof -
  assume x: "x \<le> 0"
  have "rne (x / pow2 k) \<le> 0" for k
    using x by (intro rne_le_int) (simp add: divide_nonpos_pos)
  then have "real_of_int (rne (x / pow2 k)) * pow2 k \<le> 0" for k
    by (intro mult_nonpos_nonneg) (simp_all add: less_imp_le)
  then show ?thesis
    by (simp add: flp_def Let_def)
qed

lemma flp_ge_pow2:
  assumes "pow2 k \<le> x" and "emin \<le> k" and "1 \<le> p"
  shows "pow2 k \<le> flp p emin x"
proof -
  have xpos: "0 < x" using assms(1) pow2_pos [of k] by linarith
  then have x0: "x \<noteq> 0" and ax: "\<bar>x\<bar> = x" by simp_all
  have kb: "k \<le> bexp x" using assms(1) ax bexp_ge [of k x] by simp
  then have e: "max (bexp x) emin = bexp x" using assms(2) by simp
  let ?e = "bexp x"
  let ?u = "pow2 (?e - p + 1)"
  have "pow2 ?e \<le> x" using bexp_bounds(1) [OF x0] ax by simp
  then have "pow2 ?e / ?u \<le> x / ?u" by (rule divide_right_mono) (simp add: less_imp_le)
  moreover have "pow2 ?e / ?u = real_of_int (2 ^ nat (p - 1))"
  proof -
    have "pow2 ?e / ?u = pow2 (?e - (?e - p + 1))" by (simp only: pow2_diff)
    also have "\<dots> = pow2 (int (nat (p - 1)))" using assms(3) by simp
    finally show ?thesis by (simp only: pow2_nat) simp
  qed
  ultimately have "2 ^ nat (p - 1) \<le> rne (x / ?u)" by (intro rne_ge_int) simp
  then have "real_of_int (2 ^ nat (p - 1)) * ?u \<le> real_of_int (rne (x / ?u)) * ?u"
    by (intro mult_right_mono) simp_all
  moreover have "real_of_int (2 ^ nat (p - 1)) * ?u = pow2 ?e"
  proof -
    have "pow2 (int (nat (p - 1))) * ?u = pow2 (int (nat (p - 1)) + (?e - p + 1))"
      by (simp only: pow2_add)
    also have "\<dots> = pow2 ?e" using assms(3) by simp
    finally show ?thesis by (simp only: pow2_nat) simp
  qed
  moreover have "pow2 k \<le> pow2 ?e" using kb by (rule pow2_mono)
  moreover have "flp p emin x = real_of_int (rne (x / ?u)) * ?u"
    using x0 e by (simp add: flp_def Let_def)
  ultimately show ?thesis by linarith
qed

lemma flp_le_pow2:
  assumes "x \<le> pow2 k" and "emin \<le> k" and "1 \<le> p"
  shows "flp p emin x \<le> pow2 k"
proof (cases "x \<le> 0")
  case True
  then have "flp p emin x \<le> 0" by (rule flp_nonpos)
  also have "0 \<le> pow2 k" by simp
  finally show ?thesis .
next
  case False
  then have xpos: "0 < x" by simp
  then have x0: "x \<noteq> 0" and ax: "\<bar>x\<bar> = x" by simp_all
  define e where "e = max (bexp x) emin"
  define n where "n = nat (k - e + p - 1)"
  let ?u = "pow2 (e - p + 1)"
  have ek: "e \<le> k" using bexp_le [OF x0, of k] assms(1,2) ax by (simp add: e_def)
  have n: "int n = k - e + p - 1" using ek assms(3) by (simp add: n_def)
  have "x / ?u \<le> pow2 k / ?u" using assms(1) by (rule divide_right_mono) simp
  moreover have "pow2 k / ?u = real_of_int (2 ^ n)"
  proof -
    have "pow2 k / ?u = pow2 (k - (e - p + 1))" by (simp only: pow2_diff)
    also have "k - (e - p + 1) = int n" using n by simp
    finally show ?thesis by (simp only: pow2_nat) simp
  qed
  ultimately have "rne (x / ?u) \<le> 2 ^ n" by (intro rne_le_int) simp
  then have "real_of_int (rne (x / ?u)) * ?u \<le> real_of_int (2 ^ n) * ?u"
    by (intro mult_right_mono) simp_all
  moreover have "real_of_int (2 ^ n) * ?u = pow2 k"
  proof -
    have "pow2 (int n) * ?u = pow2 (int n + (e - p + 1))" by (simp only: pow2_add)
    also have "int n + (e - p + 1) = k" using n by simp
    finally show ?thesis by (simp only: pow2_nat) simp
  qed
  moreover have "flp p emin x = real_of_int (rne (x / ?u)) * ?u"
    using x0 by (simp add: flp_def Let_def e_def)
  ultimately show ?thesis by linarith
qed

lemma flp_of_int:
  assumes "0 < n" and "n < 2 ^ nat p" and "emin \<le> 0" and "1 \<le> p"
  shows "flp p emin (real_of_int n) = real_of_int n"
proof -
  let ?x = "real_of_int n"
  have x0: "?x \<noteq> 0" and ax: "\<bar>?x\<bar> = ?x" using assms(1) by simp_all
  have "pow2 0 \<le> \<bar>?x\<bar>" using assms(1) by (simp add: pow2_def)
  then have e0: "0 \<le> bexp ?x" by (rule bexp_ge)
  then have e: "max (bexp ?x) emin = bexp ?x" using assms(3) by simp
  have "?x < pow2 p" using assms(2,4) by (simp add: pow2_def)
  with bexp_bounds(1) [OF x0] ax have "pow2 (bexp ?x) < pow2 p" by linarith
  then have ep: "bexp ?x < p" by (simp add: pow2_less_iff)
  let ?k = "nat (p - 1 - bexp ?x)"
  let ?u = "pow2 (bexp ?x - p + 1)"
  have u: "?u = 1 / 2 ^ ?k"
    using ep by (simp add: pow2_def) (smt (verit) nat_0_iff power_0 div_by_1)
  have "?x / ?u = real_of_int (n * 2 ^ ?k)" by (simp add: u)
  then have "rne (?x / ?u) = n * 2 ^ ?k" by (simp only: rne_of_int)
  then have "real_of_int (rne (?x / ?u)) * ?u = ?x" by (simp add: u)
  then show ?thesis
    using x0 e by (simp add: flp_def Let_def)
qed

lemma fl32_eq:
  assumes "pow2 e \<le> \<bar>x\<bar>" and "\<bar>x\<bar> < pow2 (e + 1)" and "- 126 \<le> e"
  shows "fl32 x = real_of_int (rne (x / pow2 (e - 23))) * pow2 (e - 23)"
  using flp_eq [OF assms(1,2), of "- 126" 24] assms(3) by (simp add: fl32_def)

lemma fl64_eq:
  assumes "pow2 e \<le> \<bar>x\<bar>" and "\<bar>x\<bar> < pow2 (e + 1)" and "- 1022 \<le> e"
  shows "fl64 x = real_of_int (rne (x / pow2 (e - 52))) * pow2 (e - 52)"
  using flp_eq [OF assms(1,2), of "- 1022" 53] assms(3) by (simp add: fl64_def)

lemma fl32_ge_1: "1 \<le> x \<Longrightarrow> 1 \<le> fl32 x"
  using flp_ge_pow2 [of 0 x "- 126" 24] by (simp add: fl32_def pow2_def)

lemma fl32_nonneg: "0 \<le> x \<Longrightarrow> 0 \<le> fl32 x"
  by (simp add: fl32_def flp_nonneg)

subsection \<open>The constants of the concrete instances\<close>

lemma fl32_target: "fl32 (8947849 / 536870912) = 8947849 / 536870912"
  by (subst fl32_eq [where e = "- 6"]) (simp_all add: pow2_def rne_def)

lemma fl32_target_half: "fl32 (8947849 / 1073741824) = 8947849 / 1073741824"
  by (subst fl32_eq [where e = "- 7"]) (simp_all add: pow2_def rne_def)

lemma fl32_target_quarter: "fl32 (8947849 / 2147483648) = 8947849 / 2147483648"
  by (subst fl32_eq [where e = "- 8"]) (simp_all add: pow2_def rne_def)

lemma fl32_sane_minimum: "fl32 (1 / 100000) = 2748779 / 274877906944"
  by (subst fl32_eq [where e = "- 17"]) (simp_all add: pow2_def rne_def)

lemma fl64_095: "fl64 (19 / 20) = 4278419646001971 / 4503599627370496"
  by (subst fl64_eq [where e = "- 1"]) (simp_all add: pow2_def rne_def)

lemma fl32_1: "fl32 1 = 1"
  by (subst fl32_eq [where e = 0]) (simp_all add: pow2_def rne_def)

lemma fl32_half: "fl32 (1 / 2) = 1 / 2"
  by (subst fl32_eq [where e = "- 1"]) (simp_all add: pow2_def rne_def)

lemma fl32_quarter: "fl32 (1 / 4) = 1 / 4"
  by (subst fl32_eq [where e = "- 2"]) (simp_all add: pow2_def rne_def)

lemma fl64_4: "fl64 4 = 4"
  by (subst fl64_eq [where e = 2]) (simp_all add: pow2_def rne_def)

lemma fl32_2: "fl32 2 = 2"
  by (subst fl32_eq [where e = 1]) (simp_all add: pow2_def rne_def)

lemma fl32_3: "fl32 3 = 3"
  by (subst fl32_eq [where e = 1]) (simp_all add: pow2_def rne_def)

lemma fl32_5: "fl32 5 = 5"
  by (subst fl32_eq [where e = 2]) (simp_all add: pow2_def rne_def)

lemma fl32_8: "fl32 8 = 8"
  by (subst fl32_eq [where e = 3]) (simp_all add: pow2_def rne_def)

lemma fl32_target_4: "fl32 (8947849 / 134217728) = 8947849 / 134217728"
  by (subst fl32_eq [where e = "- 4"]) (simp_all add: pow2_def rne_def)

lemma fl32_target_8_5: "fl32 (8947849 / 335544320) = 7158279 / 268435456"
  by (subst fl32_eq [where e = "- 6"]) (simp_all add: pow2_def rne_def)

lemma fl32_overrun_quotient: "fl32 (26843546 / 8947849) = 3"
  by (subst fl32_eq [where e = 1]) (simp_all add: pow2_def rne_def)

lemma fl32_overrun_product: "fl32 (26843547 / 536870912) = 6710887 / 134217728"
  by (subst fl32_eq [where e = "- 5"]) (simp_all add: pow2_def rne_def)

lemma fl32_overrun_leftover: "fl32 (- (1 / 268435456)) = - (1 / 268435456)"
  by (subst fl32_eq [where e = "- 28"]) (simp_all add: pow2_def rne_def)

lemma fl32_target_8_3: "fl32 (8947849 / 201326592) = 11930465 / 268435456"
  by (subst fl32_eq [where e = "- 5"]) (simp_all add: pow2_def rne_def)

lemma fl32_cheap_budget: "fl32 (15907287 / 8589934592) = 15907287 / 8589934592"
  by (subst fl32_eq [where e = "- 10"]) (simp_all add: pow2_def rne_def)

lemma fl32_cheap_ratio: "fl32 (15907287 / 143165584) = 14913081 / 134217728"
  by (subst fl32_eq [where e = "- 4"]) (simp_all add: pow2_def rne_def)

lemma fl64_cheap_inverse: "fl64 (134217728 / 14913081) = 1207959543 / 134217728"
  by (subst fl64_eq [where e = 3]) (simp_all add: pow2_def rne_def)

subsection \<open>Step configuration\<close>

lemma float_to_int_nonneg:
  "0 \<le> x \<Longrightarrow> x < 2 ^ 31 \<Longrightarrow> float_to_int x = Some \<lfloor>x\<rfloor>"
proof -
  assume x: "0 \<le> x" "x < 2 ^ 31"
  have "\<lfloor>x\<rfloor> < 2 ^ 31" using x(2) by (simp add: floor_less_iff)
  moreover have "0 \<le> \<lfloor>x\<rfloor>" using x(1) by simp
  ultimately show ?thesis using x(1) by (simp add: float_to_int_def)
qed

text \<open>
  The quotient converts to \<open>int\<close> at least as long as the accumulated time is
  not negative and holds at most \<open>2 ^ 30\<close> target steps.
\<close>

lemma quotient_converts:
  assumes "0 < d" and "0 \<le> t" and "t / d \<le> 2 ^ 30"
  shows "float_to_int (fl32 (t / d)) = Some \<lfloor>fl32 (t / d)\<rfloor>"
proof -
  have "0 \<le> fl32 (t / d)" using assms(1,2) by (intro fl32_nonneg) simp
  moreover have "fl32 (t / d) \<le> pow2 30"
    unfolding fl32_def using assms(3) by (intro flp_le_pow2) (simp_all add: pow2_def)
  then have "fl32 (t / d) < 2 ^ 31" by (simp add: pow2_def)
  ultimately show ?thesis by (rule float_to_int_nonneg)
qed

lemma maxAllowedSteps_le_10: "maxAllowedSteps s \<le> 10"
  by (simp add: maxAllowedSteps_def Let_def)

lemma budgetMeasurement_ge: "1 / 2 ^ 17 < budgetMeasurement s"
proof -
  have "(1::real) / 2 ^ 17 < 2748779 / 274877906944" by simp
  then show ?thesis
    by (simp add: budgetMeasurement_def fl32_sane_minimum less_max_iff_disj)
qed

lemma maxAllowedSteps_ceil_range:
  assumes "budgetMeasurement s < 1 / 2"
  shows "2 \<le> \<lceil>fl64 (1 / budgetMeasurement s)\<rceil>"
    and "\<lceil>fl64 (1 / budgetMeasurement s)\<rceil> \<le> 131072"
proof -
  let ?b = "budgetMeasurement s"
  have pos: "0 < ?b" using budgetMeasurement_ge [of s] by (simp add: order_less_trans [rotated])
  have "2 \<le> 1 / ?b" using assms pos by (simp add: field_simps)
  then have "pow2 1 \<le> fl64 (1 / ?b)"
    unfolding fl64_def by (intro flp_ge_pow2) (simp_all add: pow2_def)
  then show "2 \<le> \<lceil>fl64 (1 / ?b)\<rceil>" by (simp add: pow2_def le_ceiling_iff)
  have "1 / ?b \<le> 2 ^ 17" using budgetMeasurement_ge [of s] pos by (simp add: field_simps)
  then have "fl64 (1 / ?b) \<le> pow2 17"
    unfolding fl64_def by (intro flp_le_pow2) (simp_all add: pow2_def)
  then show "\<lceil>fl64 (1 / ?b)\<rceil> \<le> 131072" by (simp add: pow2_def ceiling_le_iff)
qed

lemma maxAllowedSteps_ge_1: "1 \<le> maxAllowedSteps s"
proof (cases "budgetMeasurement s < 1 / 2")
  case True
  from maxAllowedSteps_ceil_range(1) [OF True] have "1 \<le> \<lceil>fl64 (1 / budgetMeasurement s)\<rceil>"
    by simp
  with True show ?thesis by (simp add: maxAllowedSteps_def Let_def)
next
  case False
  then show ?thesis by (simp add: maxAllowedSteps_def Let_def)
qed

text \<open>What the function returns, when it returns, and when it does.\<close>

lemma calculateStepConfig_defined:
  assumes "mDefaultPhysicsDt s \<noteq> 0"
    and "float_to_int (fl32 (timeAccum / mDefaultPhysicsDt s)) = Some wanted"
  shows "calculateStepConfig s timeAccum =
     Some (min wanted (maxAllowedSteps s),
           if wanted > maxAllowedSteps s
           then max (fl32 (timeAccum / fl32 (real_of_int (maxAllowedSteps s + 1))))
                    (mDefaultPhysicsDt s)
           else mDefaultPhysicsDt s)"
  using assms by (simp add: calculateStepConfig_def Let_def min_def)

lemma calculateStepConfig_SomeD:
  assumes "calculateStepConfig s timeAccum = Some (numSteps, stepDt)"
  shows "mDefaultPhysicsDt s \<noteq> 0
     \<and> (\<exists>wanted. float_to_int (fl32 (timeAccum / mDefaultPhysicsDt s)) = Some wanted
          \<and> numSteps = min wanted (maxAllowedSteps s)
          \<and> stepDt =
              (if wanted > maxAllowedSteps s
               then max (fl32 (timeAccum / fl32 (real_of_int (numSteps + 1))))
                        (mDefaultPhysicsDt s)
               else mDefaultPhysicsDt s))"
proof -
  from assms have dt: "mDefaultPhysicsDt s \<noteq> 0"
    by (auto simp add: calculateStepConfig_def split: if_splits)
  from assms dt obtain wanted
    where w: "float_to_int (fl32 (timeAccum / mDefaultPhysicsDt s)) = Some wanted"
    by (auto simp add: calculateStepConfig_def split: option.splits)
  from calculateStepConfig_defined [OF dt w] assms show ?thesis
    using dt w by (auto simp add: min_def)
qed

lemma calculateStepConfig_returns:
  assumes "mDefaultPhysicsDt s \<noteq> 0"
    and "float_to_int (fl32 (timeAccum / mDefaultPhysicsDt s)) \<noteq> None"
  shows "\<exists>numSteps stepDt. calculateStepConfig s timeAccum = Some (numSteps, stepDt)"
proof -
  from assms(2) obtain wanted
    where "float_to_int (fl32 (timeAccum / mDefaultPhysicsDt s)) = Some wanted"
    by auto
  from calculateStepConfig_defined [OF assms(1) this] show ?thesis by blast
qed

lemma freshScheduler_fields:
  "mDefaultPhysicsDt freshScheduler = 8947849 / 536870912"
  "Budget_get (mBudget freshScheduler) = 8947849 / 536870912"
  "Budget_get (mAsyncBudget freshScheduler) = 0"
  by (simp_all add: freshScheduler_def PhysicsTaskScheduler_ctor_def computeNumThreads_def
      Budget_get_def)

lemma withBudgets_fields:
  "mDefaultPhysicsDt (withBudgets b ab s) = mDefaultPhysicsDt s"
  "Budget_get (mBudget (withBudgets b ab s)) = b"
  "Budget_get (mAsyncBudget (withBudgets b ab s)) = ab"
  by (simp_all add: withBudgets_def Budget_get_def)

lemma budgetRatio_freshScheduler: "budgetRatio freshScheduler = 1"
  by (simp add: budgetRatio_def freshScheduler_fields fl32_target fl32_1)

lemma maxAllowedSteps_freshScheduler: "maxAllowedSteps freshScheduler = 1"
  by (simp add: maxAllowedSteps_def budgetMeasurement_def budgetRatio_freshScheduler
      fl32_sane_minimum fl64_095 Let_def)

lemma budgetRatio_quarter:
  "budgetRatio (withBudgets (8947849 / 2147483648) 0 freshScheduler) = 1 / 4"
  by (simp add: budgetRatio_def freshScheduler_fields withBudgets_fields fl32_target_quarter
      fl32_quarter)

lemma maxAllowedSteps_quarter:
  "maxAllowedSteps (withBudgets (8947849 / 2147483648) 0 freshScheduler) = 4"
  by (simp add: maxAllowedSteps_def budgetMeasurement_def budgetRatio_quarter
      fl32_sane_minimum fl64_095 fl64_4 Let_def)

lemma budgetRatio_half:
  "budgetRatio (withBudgets (8947849 / 1073741824) 0 freshScheduler) = 1 / 2"
  by (simp add: budgetRatio_def freshScheduler_fields withBudgets_fields fl32_target_half
      fl32_half)

lemma float_to_int_numeral [simp]:
  "float_to_int 0 = Some 0" "float_to_int 3 = Some 3" "float_to_int 8 = Some 8"
  by (simp_all add: float_to_int_def)

text \<open>
  The \<open>double\<close> 0.95 is below 0.95 by less than the spacing of the \<open>float\<close>
  values there, so no \<open>float\<close> value lies between them: for the measured ratio
  the test of the code, against the \<open>double\<close>, is the test against 0.95.
\<close>

lemma fl32_le_095:
  assumes "1 / 2 \<le> fl32 y" and "fl32 y \<le> 95 / 100"
  shows "fl32 y \<le> fl64 (95 / 100)"
proof -
  consider "1 \<le> y" | "1 / 2 \<le> y" "y < 1" | "y < 1 / 2" by linarith
  then show ?thesis
  proof cases
    case 1
    then have "1 \<le> fl32 y" by (rule fl32_ge_1)
    with assms(2) show ?thesis by simp
  next
    case 2
    define k where "k = rne (y / pow2 (- 1 - 23))"
    have "fl32 y = real_of_int k * pow2 (- 1 - 23)"
      unfolding k_def using 2 by (intro fl32_eq) (simp_all add: pow2_def)
    then have fl: "fl32 y = real_of_int k / 16777216" by (simp add: pow2_def)
    with assms(2) have "real_of_int k \<le> 318767104 / 20" by simp
    then have "real_of_int k \<le> real_of_int 15938355" by (simp add: le_floor_iff [symmetric])
    then have "k \<le> 15938355" by (simp only: of_int_le_iff)
    then have "real_of_int k / 16777216 \<le> 15938355 / 16777216" by simp
    then show ?thesis by (simp add: fl fl64_095)
  next
    case 3
    then have "fl32 y \<le> pow2 (- 1)"
      unfolding fl32_def by (intro flp_le_pow2) (simp_all add: pow2_def)
    then have "fl32 y \<le> 1 / 2" by (simp add: pow2_def)
    with assms(1) have "fl32 y = 1 / 2" by simp
    then show ?thesis by (simp add: fl64_095)
  qed
qed

lemma fl64_095_less: "fl64 (95 / 100) < 95 / 100"
  by (simp add: fl64_095)

text \<open>
  C7. Whenever \<open>calculateStepConfig\<close> returns, for every accumulated time and
  every state of the budgets, the step size it returns is at least the fixed
  target step \<open>mDefaultPhysicsDt\<close>: it is the target itself when the step count
  wanted is within the cap, and in the fallback it is
  \<open>timeAccum/float(numSteps+1)\<close> raised to the target by \<open>std::max\<close>. It returns
  whenever the target step is not 0 and the quotient converts to \<open>int\<close>, so for
  a positive target step and an accumulated time of 0 up to 2^30 target steps.
\<close>

theorem calculateStepConfig_stepDt_ge_target:
  "(\<forall>numSteps stepDt. calculateStepConfig s timeAccum = Some (numSteps, stepDt) \<longrightarrow>
      mDefaultPhysicsDt s \<le> stepDt
      \<and> (\<exists>wanted. float_to_int (fl32 (timeAccum / mDefaultPhysicsDt s)) = Some wanted
           \<and> stepDt =
               (if wanted > maxAllowedSteps s
                then max (fl32 (timeAccum / fl32 (real_of_int (numSteps + 1))))
                         (mDefaultPhysicsDt s)
                else mDefaultPhysicsDt s)))
   \<and> (mDefaultPhysicsDt s \<noteq> 0
        \<and> float_to_int (fl32 (timeAccum / mDefaultPhysicsDt s)) \<noteq> None \<longrightarrow>
      (\<exists>numSteps stepDt. calculateStepConfig s timeAccum = Some (numSteps, stepDt)))
   \<and> (0 < mDefaultPhysicsDt s \<and> 0 \<le> timeAccum
        \<and> timeAccum / mDefaultPhysicsDt s \<le> 2 ^ 30 \<longrightarrow>
      (\<exists>numSteps stepDt. calculateStepConfig s timeAccum = Some (numSteps, stepDt)))"
proof -
  have bound: "mDefaultPhysicsDt s \<le> stepDt
      \<and> (\<exists>wanted. float_to_int (fl32 (timeAccum / mDefaultPhysicsDt s)) = Some wanted
           \<and> stepDt =
               (if wanted > maxAllowedSteps s
                then max (fl32 (timeAccum / fl32 (real_of_int (numSteps + 1))))
                         (mDefaultPhysicsDt s)
                else mDefaultPhysicsDt s))"
    if "calculateStepConfig s timeAccum = Some (numSteps, stepDt)" for numSteps stepDt
  proof -
    from calculateStepConfig_SomeD [OF that] obtain wanted
      where w: "float_to_int (fl32 (timeAccum / mDefaultPhysicsDt s)) = Some wanted"
        and d: "stepDt =
               (if wanted > maxAllowedSteps s
                then max (fl32 (timeAccum / fl32 (real_of_int (numSteps + 1))))
                         (mDefaultPhysicsDt s)
                else mDefaultPhysicsDt s)"
      by blast
    from d have "mDefaultPhysicsDt s \<le> stepDt" by simp
    with w d show ?thesis by blast
  qed
  have total: "\<exists>numSteps stepDt. calculateStepConfig s timeAccum = Some (numSteps, stepDt)"
    if "0 < mDefaultPhysicsDt s" "0 \<le> timeAccum" "timeAccum / mDefaultPhysicsDt s \<le> 2 ^ 30"
  proof -
    from that have "float_to_int (fl32 (timeAccum / mDefaultPhysicsDt s)) \<noteq> None"
      by (simp add: quotient_converts)
    with that(1) show ?thesis
      by (intro calculateStepConfig_returns) simp_all
  qed
  from bound total calculateStepConfig_returns [of s timeAccum] show ?thesis by blast
qed

theorem calculateStepConfig_stepDt_ge_target_witness:
  "calculateStepConfig freshScheduler (8947849 / 67108864) = Some (1, 8947849 / 134217728)
   \<and> mDefaultPhysicsDt freshScheduler \<le> 8947849 / 134217728
   \<and> mDefaultPhysicsDt freshScheduler \<noteq> 0
   \<and> float_to_int (fl32 (8947849 / 67108864 / mDefaultPhysicsDt freshScheduler)) \<noteq> None
   \<and> 0 < mDefaultPhysicsDt freshScheduler
   \<and> 8947849 / 67108864 / mDefaultPhysicsDt freshScheduler \<le> 2 ^ 30"
proof -
  have c: "calculateStepConfig freshScheduler (8947849 / 67108864)
      = Some (1, 8947849 / 134217728)"
    by (simp add: calculateStepConfig_def maxAllowedSteps_freshScheduler freshScheduler_fields
        fl32_8 fl32_2 fl32_target_4)
  show ?thesis
    using calculateStepConfig_stepDt_ge_target [of freshScheduler "8947849 / 67108864"]
    by (simp add: c freshScheduler_fields fl32_8)
qed

text \<open>
  C8. When the measured budget ratio is below 0.5 (the target step not being
  0), the cap on the step count is \<open>ceil(1.0/budgetMeasurement)\<close>, where
  \<open>budgetMeasurement\<close> is the ratio raised to its sane minimum and the division
  is the \<open>double\<close> division of the code, clamped to at most 10; the cap is at
  most 10 in every case; and the step count returned is the count wanted
  capped by it, so it never exceeds the cap, nor 10, whatever the input.
\<close>

theorem calculateStepConfig_numSteps_le_10:
  "(mDefaultPhysicsDt s \<noteq> 0 \<and> budgetRatio s < 1 / 2 \<longrightarrow>
      maxAllowedSteps s =
        min 10 \<lceil>fl64 (1 / max (fl32 (1 / 100000)) (budgetRatio s))\<rceil>)
   \<and> maxAllowedSteps s \<le> 10
   \<and> (\<forall>numSteps stepDt. calculateStepConfig s timeAccum = Some (numSteps, stepDt) \<longrightarrow>
        numSteps \<le> maxAllowedSteps s \<and> numSteps \<le> 10
        \<and> (\<exists>wanted. float_to_int (fl32 (timeAccum / mDefaultPhysicsDt s)) = Some wanted
             \<and> numSteps = min wanted (maxAllowedSteps s)))
   \<and> (mDefaultPhysicsDt s \<noteq> 0
        \<and> float_to_int (fl32 (timeAccum / mDefaultPhysicsDt s)) \<noteq> None \<longrightarrow>
      (\<exists>numSteps stepDt. calculateStepConfig s timeAccum = Some (numSteps, stepDt)))"
proof -
  have cap: "maxAllowedSteps s \<le> 10"
    by (rule maxAllowedSteps_le_10)
  have below: "budgetRatio s < 1 / 2 \<Longrightarrow>
      maxAllowedSteps s =
        min 10 \<lceil>fl64 (1 / max (fl32 (1 / 100000)) (budgetRatio s))\<rceil>"
    by (simp add: maxAllowedSteps_def budgetMeasurement_def fl32_sane_minimum Let_def)
  have steps: "numSteps \<le> maxAllowedSteps s \<and> numSteps \<le> 10
        \<and> (\<exists>wanted. float_to_int (fl32 (timeAccum / mDefaultPhysicsDt s)) = Some wanted
             \<and> numSteps = min wanted (maxAllowedSteps s))"
    if "calculateStepConfig s timeAccum = Some (numSteps, stepDt)" for numSteps stepDt
  proof -
    from calculateStepConfig_SomeD [OF that] obtain wanted
      where w: "float_to_int (fl32 (timeAccum / mDefaultPhysicsDt s)) = Some wanted"
        and n: "numSteps = min wanted (maxAllowedSteps s)"
      by blast
    from n cap have "numSteps \<le> maxAllowedSteps s" "numSteps \<le> 10" by simp_all
    with w n show ?thesis by blast
  qed
  from cap below steps calculateStepConfig_returns [of s timeAccum] show ?thesis by blast
qed

theorem calculateStepConfig_numSteps_le_10_witness:
  "mDefaultPhysicsDt (withBudgets (8947849 / 2147483648) 0 freshScheduler) \<noteq> 0
   \<and> budgetRatio (withBudgets (8947849 / 2147483648) 0 freshScheduler) < 1 / 2
   \<and> maxAllowedSteps (withBudgets (8947849 / 2147483648) 0 freshScheduler) = 4
   \<and> calculateStepConfig (withBudgets (8947849 / 2147483648) 0 freshScheduler)
         (8947849 / 67108864)
       = Some (4, 7158279 / 268435456)
   \<and> float_to_int (fl32 (8947849 / 67108864
         / mDefaultPhysicsDt (withBudgets (8947849 / 2147483648) 0 freshScheduler))) = Some 8"
proof -
  let ?s = "withBudgets (8947849 / 2147483648) 0 freshScheduler"
  have b: "budgetRatio ?s = 1 / 4"
    by (rule budgetRatio_quarter)
  have c: "calculateStepConfig ?s (8947849 / 67108864) = Some (4, 7158279 / 268435456)"
    by (simp add: calculateStepConfig_def maxAllowedSteps_quarter withBudgets_fields
        freshScheduler_fields fl32_8 fl32_5 fl32_target_8_5)
  show ?thesis
    using calculateStepConfig_numSteps_le_10 [of ?s "8947849 / 67108864"]
    by (simp add: b c maxAllowedSteps_quarter withBudgets_fields freshScheduler_fields fl32_8)
qed

text \<open>
  The cap follows the ratio as the code computes it, a \<open>float\<close> quotient. With
  a target step of 1/60 s and a measured budget of 15907287/8589934592 s, the
  exact quotient is a little below 1/9 and its inverse rounds up to 10, while
  the \<open>float\<close> quotient is a little above 1/9 and the cap is 9.
\<close>

lemma maxAllowedSteps_rounded_ratio:
  "budgetRatio (withBudgets (15907287 / 8589934592) 0 freshScheduler) = 14913081 / 134217728
   \<and> maxAllowedSteps (withBudgets (15907287 / 8589934592) 0 freshScheduler) = 9
   \<and> \<lceil>1 / ((15907287 / 8589934592) / (8947849 / 536870912) :: real)\<rceil> = 10"
proof -
  let ?s = "withBudgets (15907287 / 8589934592) 0 freshScheduler"
  have ratio: "budgetRatio ?s = 14913081 / 134217728"
    by (simp add: budgetRatio_def withBudgets_fields freshScheduler_fields fl32_cheap_budget
        fl32_cheap_ratio)
  have cap: "maxAllowedSteps ?s = 9"
    by (simp add: maxAllowedSteps_def budgetMeasurement_def ratio fl32_sane_minimum
        fl64_cheap_inverse Let_def ceiling_eq_iff)
  have exact: "\<lceil>1 / ((15907287 / 8589934592) / (8947849 / 536870912) :: real)\<rceil> = 10"
    by (simp add: ceiling_eq_iff)
  from ratio cap exact show ?thesis
    by (intro conjI)
qed

text \<open>
  C10. When the measured budget ratio lies in the interval from 0.5 to 0.95
  (both ends included), neither branch changes \<open>maxAllowedSteps\<close>: the cap is
  its initial value 2, and the step count returned is the number of whole
  target steps in the accumulated time, as the \<open>float\<close> quotient has it, capped
  at 2.
\<close>

theorem calculateStepConfig_default_cap:
  assumes "1 / 2 \<le> budgetRatio s" and "budgetRatio s \<le> 95 / 100"
  shows "maxAllowedSteps s = 2
     \<and> (\<forall>numSteps stepDt. calculateStepConfig s timeAccum = Some (numSteps, stepDt) \<longrightarrow>
          (\<exists>wanted. float_to_int (fl32 (timeAccum / mDefaultPhysicsDt s)) = Some wanted
             \<and> numSteps = min wanted 2))
     \<and> (mDefaultPhysicsDt s \<noteq> 0
          \<and> float_to_int (fl32 (timeAccum / mDefaultPhysicsDt s)) \<noteq> None \<longrightarrow>
        (\<exists>numSteps stepDt. calculateStepConfig s timeAccum = Some (numSteps, stepDt)))"
proof -
  have "budgetRatio s \<le> fl64 (95 / 100)"
    using assms unfolding budgetRatio_def by (rule fl32_le_095)
  moreover have "budgetMeasurement s = budgetRatio s"
    using assms(1) by (simp add: budgetMeasurement_def fl32_sane_minimum max_def)
  ultimately have cap: "maxAllowedSteps s = 2"
    using assms(1) by (simp add: maxAllowedSteps_def Let_def)
  have steps: "\<exists>wanted. float_to_int (fl32 (timeAccum / mDefaultPhysicsDt s)) = Some wanted
             \<and> numSteps = min wanted 2"
    if "calculateStepConfig s timeAccum = Some (numSteps, stepDt)" for numSteps stepDt
    using calculateStepConfig_SomeD [OF that] unfolding cap by blast
  from cap steps calculateStepConfig_returns [of s timeAccum] show ?thesis by blast
qed

theorem calculateStepConfig_default_cap_witness:
  "1 / 2 \<le> budgetRatio (withBudgets (8947849 / 1073741824) 0 freshScheduler)
   \<and> budgetRatio (withBudgets (8947849 / 1073741824) 0 freshScheduler) \<le> 95 / 100
   \<and> maxAllowedSteps (withBudgets (8947849 / 1073741824) 0 freshScheduler) = 2
   \<and> float_to_int (fl32 (8947849 / 67108864
         / mDefaultPhysicsDt (withBudgets (8947849 / 1073741824) 0 freshScheduler))) = Some 8
   \<and> calculateStepConfig (withBudgets (8947849 / 1073741824) 0 freshScheduler)
         (8947849 / 67108864)
       = Some (2, 11930465 / 268435456)"
proof -
  let ?s = "withBudgets (8947849 / 1073741824) 0 freshScheduler"
  have cap: "maxAllowedSteps ?s = 2"
    using calculateStepConfig_default_cap [of ?s] by (simp add: budgetRatio_half)
  have c: "calculateStepConfig ?s (8947849 / 67108864) = Some (2, 11930465 / 268435456)"
    by (simp add: calculateStepConfig_def cap withBudgets_fields freshScheduler_fields
        fl32_8 fl32_3 fl32_target_8_3)
  show ?thesis
    by (simp add: budgetRatio_half cap c withBudgets_fields freshScheduler_fields fl32_8)
qed

text \<open>
  C2, as the code has it. A freshly constructed scheduler has the budget ratio
  1, and with no time accumulated \<open>calculateStepConfig\<close> returns no step at
  all: the ratio caps the step count, it does not raise it.
\<close>

theorem calculateStepConfig_high_ratio_counterexample:
  "95 / 100 \<le> budgetRatio freshScheduler
   \<and> calculateStepConfig freshScheduler 0 = Some (0, 8947849 / 536870912)"
  by (simp add: calculateStepConfig_def maxAllowedSteps_freshScheduler budgetRatio_freshScheduler
      freshScheduler_fields fl32_def flp_def)

text \<open>
  C2, amended. When the measured budget ratio is at least 0.95 the cap is 1,
  and the step count returned is the number of whole target steps in the
  accumulated time, as the \<open>float\<close> quotient has it, capped at 1: exactly 1 once
  a whole target step has accumulated, however much more there is as long as
  the quotient converts to \<open>int\<close>, and 0 while the quotient is below 1.
\<close>

theorem calculateStepConfig_high_ratio:
  assumes "95 / 100 \<le> budgetRatio s"
  shows "maxAllowedSteps s = 1
     \<and> (\<forall>numSteps stepDt. calculateStepConfig s timeAccum = Some (numSteps, stepDt) \<longrightarrow>
          (\<exists>wanted. float_to_int (fl32 (timeAccum / mDefaultPhysicsDt s)) = Some wanted
             \<and> numSteps = min wanted 1))
     \<and> (0 < mDefaultPhysicsDt s \<and> mDefaultPhysicsDt s \<le> timeAccum
          \<and> float_to_int (fl32 (timeAccum / mDefaultPhysicsDt s)) \<noteq> None \<longrightarrow>
        (\<exists>stepDt. calculateStepConfig s timeAccum = Some (1, stepDt)))
     \<and> (mDefaultPhysicsDt s \<noteq> 0 \<and> 0 \<le> fl32 (timeAccum / mDefaultPhysicsDt s)
          \<and> fl32 (timeAccum / mDefaultPhysicsDt s) < 1 \<longrightarrow>
        calculateStepConfig s timeAccum = Some (0, mDefaultPhysicsDt s))"
proof -
  let ?q = "fl32 (timeAccum / mDefaultPhysicsDt s)"
  have "fl64 (95 / 100) < budgetRatio s"
    using fl64_095_less assms by (rule less_le_trans)
  then have "fl64 (95 / 100) < budgetMeasurement s" and "\<not> budgetMeasurement s < 1 / 2"
    using assms by (simp_all add: budgetMeasurement_def less_max_iff_disj)
  then have cap: "maxAllowedSteps s = 1"
    by (simp add: maxAllowedSteps_def Let_def)
  have steps: "\<exists>wanted. float_to_int ?q = Some wanted \<and> numSteps = min wanted 1"
    if "calculateStepConfig s timeAccum = Some (numSteps, stepDt)" for numSteps stepDt
    using calculateStepConfig_SomeD [OF that] unfolding cap by blast
  have one: "\<exists>stepDt. calculateStepConfig s timeAccum = Some (1, stepDt)"
    if dt: "0 < mDefaultPhysicsDt s" and t: "mDefaultPhysicsDt s \<le> timeAccum"
      and conv: "float_to_int ?q \<noteq> None"
  proof -
    have "1 \<le> timeAccum / mDefaultPhysicsDt s" using dt t by simp
    then have q: "1 \<le> ?q" by (rule fl32_ge_1)
    from conv obtain wanted where w: "float_to_int ?q = Some wanted" by auto
    with q have "wanted = \<lfloor>?q\<rfloor>"
      by (auto simp add: float_to_int_def Let_def split: if_splits)
    with q have "1 \<le> wanted" by simp
    then have "min wanted 1 = 1" by simp
    with calculateStepConfig_defined [OF _ w] dt show ?thesis
      by (simp add: cap)
  qed
  have zero: "calculateStepConfig s timeAccum = Some (0, mDefaultPhysicsDt s)"
    if dt: "mDefaultPhysicsDt s \<noteq> 0" and q: "0 \<le> ?q" "?q < 1"
  proof -
    from q have "\<lfloor>?q\<rfloor> = 0" by (simp add: floor_eq_iff)
    with q have "float_to_int ?q = Some 0" by (simp add: float_to_int_def)
    from calculateStepConfig_defined [OF dt this] show ?thesis by (simp add: cap)
  qed
  from cap steps one zero show ?thesis by blast
qed

theorem calculateStepConfig_high_ratio_witness:
  "95 / 100 \<le> budgetRatio freshScheduler
   \<and> 0 < mDefaultPhysicsDt freshScheduler
   \<and> mDefaultPhysicsDt freshScheduler \<le> 8947849 / 67108864
   \<and> float_to_int (fl32 (8947849 / 67108864 / mDefaultPhysicsDt freshScheduler)) \<noteq> None
   \<and> calculateStepConfig freshScheduler (8947849 / 67108864) = Some (1, 8947849 / 134217728)
   \<and> 0 \<le> fl32 (0 / mDefaultPhysicsDt freshScheduler)
   \<and> fl32 (0 / mDefaultPhysicsDt freshScheduler) < 1
   \<and> calculateStepConfig freshScheduler 0 = Some (0, mDefaultPhysicsDt freshScheduler)"
proof -
  have c: "calculateStepConfig freshScheduler (8947849 / 67108864)
      = Some (1, 8947849 / 134217728)"
    by (simp add: calculateStepConfig_def maxAllowedSteps_freshScheduler freshScheduler_fields
        fl32_8 fl32_2 fl32_target_4)
  have z: "fl32 0 = 0" by (simp add: fl32_def flp_def)
  show ?thesis
    using calculateStepConfig_high_ratio [of freshScheduler 0]
    by (simp add: c z budgetRatio_freshScheduler freshScheduler_fields fl32_8)
qed

text \<open>
  C1, at a failing input. The target step is 1/60 s as a \<open>float\<close>, the budgets
  have measured a quarter of it (cap 4), and 0.05 s as a \<open>float\<close> has
  accumulated, a little less than three target steps. The \<open>float\<close> quotient
  rounds to 3, \<open>calculateStepConfig\<close> returns 3 steps of the target size, which
  cover more than the accumulated time, and the two statements of
  \<open>applyQueuedMovements\<close> leave a negative time for the next frame.
\<close>

theorem applyQueuedMovements_timeAccum_negative:
  "calculateStepConfig (withBudgets (8947849 / 2147483648) 0 freshScheduler)
       (13421773 / 268435456)
     = Some (3, 8947849 / 536870912)
   \<and> (13421773 / 268435456 :: real) < 3 * (8947849 / 536870912)
   \<and> applyQueuedMovements_timeAccum (withBudgets (8947849 / 2147483648) 0 freshScheduler)
       (13421773 / 268435456)
     = Some (3, 8947849 / 536870912, - (1 / 268435456))"
proof -
  let ?s = "withBudgets (8947849 / 2147483648) 0 freshScheduler"
  have c: "calculateStepConfig ?s (13421773 / 268435456) = Some (3, 8947849 / 536870912)"
    by (simp add: calculateStepConfig_def maxAllowedSteps_quarter withBudgets_fields
        freshScheduler_fields fl32_overrun_quotient)
  have l: "applyQueuedMovements_timeAccum ?s (13421773 / 268435456)
      = Some (3, 8947849 / 536870912, - (1 / 268435456))"
    by (simp add: applyQueuedMovements_timeAccum_def c fl32_3 fl32_overrun_product
        fl32_overrun_leftover)
  show ?thesis by (simp add: c l)
qed

subsection \<open>Number of worker threads\<close>

text \<open>
  C9. When Bullet supports at most one ray test stack and more than one worker
  thread is configured, \<open>computeNumThreads\<close> logs a warning and returns exactly
  1 (it does not fail); in every other case it returns the configured number
  raised to 0 when negative, and logs nothing. The flag it sets says whether
  more than one stack is supported.
\<close>

theorem computeNumThreads_clamps:
  "(maxSupportedThreads \<le> 1 \<and> 1 < wantedThread \<longrightarrow>
      computeNumThreads wantedThread maxSupportedThreads =
        (1, False,
         [(Warning,
           ''Bullet was not compiled with multithreading support, 1 async thread will be used'')]))
   \<and> (\<not> (maxSupportedThreads \<le> 1 \<and> 1 < wantedThread) \<longrightarrow>
      computeNumThreads wantedThread maxSupportedThreads =
        (max 0 wantedThread, 1 < maxSupportedThreads, []))"
  by (simp add: computeNumThreads_def Let_def)

theorem computeNumThreads_clamps_witness:
  "(1::int) \<le> 1 \<and> (1::int) < 4
   \<and> fst (computeNumThreads 4 1) = 1
   \<and> snd (snd (computeNumThreads 4 1)) \<noteq> []
   \<and> \<not> ((8::int) \<le> 1 \<and> (1::int) < 4)
   \<and> computeNumThreads 4 8 = (4, True, [])
   \<and> \<not> ((1::int) \<le> 1 \<and> (1::int) < - 3)
   \<and> computeNumThreads (- 3) 1 = (0, False, [])"
  using computeNumThreads_clamps [of 1 4] computeNumThreads_clamps [of 8 4]
    computeNumThreads_clamps [of 1 "- 3"]
  by simp

subsection \<open>resetSimulation\<close>

text \<open>
  C3, as the code has it. On a scheduler with a target step of 1/60 s and a
  non-empty line-of-sight cache, \<open>resetSimulation\<close> with an empty actor set
  leaves the asynchronous budget at 0, not at the target step, and the cache
  non-empty.
\<close>

theorem resetSimulation_counterexample:
  "Budget_get (mAsyncBudget
       (fst (resetSimulation id id ([] :: (nat \<times> nat) list) watchedScheduler)))
     \<noteq> mDefaultPhysicsDt watchedScheduler
   \<and> mLOSCache (fst (resetSimulation id id ([] :: (nat \<times> nat) list) watchedScheduler)) \<noteq> []"
  by (simp add: resetSimulation_def Budget_get_def Budget_reset_def watchedScheduler_def
      freshScheduler_fields)

text \<open>
  C3, amended. \<open>resetSimulation\<close>, called with any actor set, resets the
  synchronous budget to the default step duration and the asynchronous budget
  to 0, empties the stored actor list and the list of frame data, and calls
  \<open>updatePosition\<close> then \<open>updateCollisionObjectPosition\<close> on every actor of the
  set; it leaves the line-of-sight cache and the default step duration as they
  are.
\<close>

theorem resetSimulation_effect:
  "Budget_get (mBudget
       (fst (resetSimulation updatePosition updateCollisionObjectPosition actors s)))
     = mDefaultPhysicsDt s
   \<and> Budget_get (mAsyncBudget
       (fst (resetSimulation updatePosition updateCollisionObjectPosition actors s)))
     = 0
   \<and> mActors (fst (resetSimulation updatePosition updateCollisionObjectPosition actors s)) = []
   \<and> mActorsFrameData
       (fst (resetSimulation updatePosition updateCollisionObjectPosition actors s)) = []
   \<and> mLOSCache (fst (resetSimulation updatePosition updateCollisionObjectPosition actors s))
     = mLOSCache s
   \<and> mDefaultPhysicsDt
       (fst (resetSimulation updatePosition updateCollisionObjectPosition actors s))
     = mDefaultPhysicsDt s
   \<and> snd (resetSimulation updatePosition updateCollisionObjectPosition actors s)
     = map (\<lambda>(key, actor). (key, updateCollisionObjectPosition (updatePosition actor))) actors"
  by (simp add: resetSimulation_def Budget_get_def Budget_reset_def)

subsection \<open>Locking of the collision world\<close>

lemma singleStackScheduler_flag: "\<not> mThreadSafeBullet singleStackScheduler"
  by (simp add: singleStackScheduler_def PhysicsTaskScheduler_ctor_def computeNumThreads_def)

text \<open>
  C4, as the code has it. On the scheduler constructed for a Bullet with a
  single ray test stack the flag is false, and \<open>contactTest\<close>, \<open>aabbTest\<close> and
  \<open>getAabb\<close> do not acquire the exclusive lock: they hold a
  \<open>std::shared_lock\<close>.
\<close>

theorem collisionWorld_locking_counterexample:
  "\<not> mThreadSafeBullet singleStackScheduler
   \<and> \<not> acquiresExclusive (contactTest singleStackScheduler)
   \<and> \<not> acquiresExclusive (aabbTest singleStackScheduler)
   \<and> \<not> acquiresExclusive (getAabb singleStackScheduler)"
  by (simp add: singleStackScheduler_flag acquiresExclusive_def contactTest_def aabbTest_def
      getAabb_def std_shared_lock_def)

text \<open>
  C4, amended. When the flag is false, the reads \<open>rayTest\<close>,
  \<open>convexSweepTest\<close> and \<open>getHitPoint\<close> and every write
  (\<open>addCollisionObject\<close>, \<open>removeCollisionObject\<close>, \<open>setCollisionFilterMask\<close>,
  the AABB commit) acquire the exclusive lock on the mutex of the collision
  world and never the shared one; whatever the flag, \<open>contactTest\<close>,
  \<open>aabbTest\<close> and \<open>getAabb\<close> acquire the shared lock.
\<close>

theorem collisionWorld_locking:
  "(\<not> mThreadSafeBullet s \<longrightarrow>
      acquiresExclusive (rayTest s) \<and> acquiresExclusive (convexSweepTest s)
      \<and> acquiresExclusive (getHitPoint s)
      \<and> acquiresExclusive (addCollisionObject s) \<and> acquiresExclusive (removeCollisionObject s)
      \<and> acquiresExclusive (setCollisionFilterMask s) \<and> acquiresExclusive (updatePtrAabb s))
   \<and> acquiresShared (contactTest s) \<and> acquiresShared (aabbTest s)
   \<and> acquiresShared (getAabb s)"
  by (simp add: acquiresExclusive_def acquiresShared_def rayTest_def convexSweepTest_def
      getHitPoint_def addCollisionObject_def removeCollisionObject_def setCollisionFilterMask_def
      updatePtrAabb_def contactTest_def aabbTest_def getAabb_def
      MaybeSharedLock_def std_shared_lock_def std_unique_lock_def)

theorem collisionWorld_locking_witness:
  "\<not> mThreadSafeBullet singleStackScheduler
   \<and> rayTest singleStackScheduler = [Mutex mutex_lock, World ''rayTest'', Mutex mutex_unlock]
   \<and> acquiresExclusive (rayTest singleStackScheduler)
   \<and> acquiresExclusive (addCollisionObject singleStackScheduler)
   \<and> acquiresShared (contactTest singleStackScheduler)"
  using collisionWorld_locking [of singleStackScheduler]
  by (simp add: singleStackScheduler_flag rayTest_def MaybeSharedLock_def)

subsection \<open>The line-of-sight cache\<close>









lemma refreshRequest_fst_cong:
  "rayHits w' = rayHits w \<Longrightarrow>
     fst (refreshRequest alive E r w') = fst (refreshRequest alive E r w)"
  by (simp add: refreshRequest_def hasLineOfSight_def Let_def split: prod.splits)

lemma refreshRequest_rayHits: "rayHits (snd (refreshRequest alive E r w)) = rayHits w"
  by (simp add: refreshRequest_def hasLineOfSight_def Let_def split: prod.splits)

lemma refreshRequest_entry:
  "mActorPair (fst (refreshRequest alive E r w)) = mActorPair r"
  "mAge (fst (refreshRequest alive E r w)) = mAge r + 1"
  "mStale (fst (refreshRequest alive E r w)) =
     (mStale r \<or> mAge r > E \<or> \<not> alive (fst (mActorPair r)) \<or> \<not> alive (snd (mActorPair r)))"
  by (auto simp add: refreshRequest_def hasLineOfSight_def Let_def split: prod.splits)

lemma refreshJob_alt:
  "refreshJob alive job s =
     s\<lparr>mCollisionWorld :=
         snd (refreshRequest alive (mLOSCacheExpiry s) (mLOSCache s ! job) (mCollisionWorld s)),
       mLOSCache := (mLOSCache s)
         [job := fst (refreshRequest alive (mLOSCacheExpiry s) (mLOSCache s ! job)
                        (mCollisionWorld s))]\<rparr>"
  by (simp add: refreshJob_def split: prod.splits)

lemma refreshJob_fields:
  "mNextLOS (refreshJob alive job s) = mNextLOS s"
  "mLOSCacheExpiry (refreshJob alive job s) = mLOSCacheExpiry s"
  "rayHits (mCollisionWorld (refreshJob alive job s)) = rayHits (mCollisionWorld s)"
  "mLOSCache (refreshJob alive job s) =
     (mLOSCache s)[job := fst (refreshRequest alive (mLOSCacheExpiry s) (mLOSCache s ! job)
                                 (mCollisionWorld s))]"
  by (simp_all add: refreshJob_alt refreshRequest_rayHits)

lemma take_map_drop_step:
  assumes "c < length xs"
  shows "take (Suc c) (xs[c := f (xs ! c)]) @ map f (drop (Suc c) (xs[c := f (xs ! c)]))
       = take c xs @ map f (drop c xs)"
proof -
  have "take (Suc c) (xs[c := f (xs ! c)]) = take c xs @ [f (xs ! c)]"
    using assms by (simp add: take_Suc_conv_app_nth)
  moreover have "drop c xs = xs ! c # drop (Suc c) xs"
    using assms by (simp add: Cons_nth_drop_Suc)
  ultimately show ?thesis by simp
qed

text \<open>
  The loop refreshes the requests from the cursor on, each once and in place,
  and leaves those before the cursor alone.
\<close>

lemma refreshLOSCache_loop_cache:
  assumes "numLOS = length (mLOSCache s)"
    and "rayHits (mCollisionWorld s) = rayHits w0"
    and "mLOSCacheExpiry s = E"
  shows "mLOSCache (refreshLOSCache_loop alive numLOS s) =
     take (mNextLOS s) (mLOSCache s)
     @ map (\<lambda>r. fst (refreshRequest alive E r w0)) (drop (mNextLOS s) (mLOSCache s))"
  using assms
proof (induction alive numLOS s rule: refreshLOSCache_loop.induct)
  case (1 alive numLOS s)
  let ?c = "mNextLOS s"
  let ?s1 = "s\<lparr>mNextLOS := ?c + 1\<rparr>"
  let ?f = "\<lambda>r. fst (refreshRequest alive E r w0)"
  show ?case
  proof (cases "?c < numLOS")
    case True
    let ?s2 = "refreshJob alive ?c ?s1"
    have cache2: "mLOSCache ?s2 = (mLOSCache s)[?c := ?f (mLOSCache s ! ?c)]"
      using "1.prems"
        refreshRequest_fst_cong [of "mCollisionWorld s" w0 alive E "mLOSCache s ! ?c"]
      by (simp add: refreshJob_fields)
    have "mLOSCache (refreshLOSCache_loop alive numLOS ?s2) =
        take (mNextLOS ?s2) (mLOSCache ?s2) @ map ?f (drop (mNextLOS ?s2) (mLOSCache ?s2))"
      using True "1.prems" by (intro "1.IH") (simp_all add: refreshJob_fields)
    also have "\<dots> = take (Suc ?c) ((mLOSCache s)[?c := ?f (mLOSCache s ! ?c)])
        @ map ?f (drop (Suc ?c) ((mLOSCache s)[?c := ?f (mLOSCache s ! ?c)]))"
      by (simp only: cache2) (simp add: refreshJob_fields(1))
    also have "\<dots> = take ?c (mLOSCache s) @ map ?f (drop ?c (mLOSCache s))"
      using True "1.prems" by (intro take_map_drop_step) simp
    finally show ?thesis
      using True by (subst refreshLOSCache_loop.simps) (simp add: Let_def)
  next
    case False
    with "1.prems" show ?thesis
      by (subst refreshLOSCache_loop.simps) (simp add: Let_def)
  qed
qed

lemma refreshLOSCache_cache:
  assumes "mNextLOS s = 0"
  shows "mLOSCache (refreshLOSCache alive s) =
     map (\<lambda>r. fst (refreshRequest alive (mLOSCacheExpiry s) r (mCollisionWorld s)))
       (mLOSCache s)"
  using refreshLOSCache_loop_cache
    [of "length (mLOSCache s)" s "mCollisionWorld s" "mLOSCacheExpiry s" alive] assms
  by (simp add: refreshLOSCache_def)

lemma refreshLOSCache_loop_fields:
  "mActors (refreshLOSCache_loop alive numLOS s) = mActors s
   \<and> mLOSCacheExpiry (refreshLOSCache_loop alive numLOS s) = mLOSCacheExpiry s"
proof (induction alive numLOS s rule: refreshLOSCache_loop.induct)
  case (1 alive numLOS s)
  show ?case
  proof (cases "mNextLOS s < numLOS")
    case True
    with "1.IH" [OF refl refl True] show ?thesis
      by (subst (1 2) refreshLOSCache_loop.simps) (simp add: Let_def refreshJob_alt)
  next
    case False
    then show ?thesis
      by (subst (1 2) refreshLOSCache_loop.simps) (simp add: Let_def)
  qed
qed

lemma refreshLOSCache_fields:
  "mActors (refreshLOSCache alive s) = mActors s"
  "mLOSCacheExpiry (refreshLOSCache alive s) = mLOSCacheExpiry s"
  using refreshLOSCache_loop_fields [of alive "length (mLOSCache s)" s]
  by (simp_all only: refreshLOSCache_def)


text \<open>
  A frame of a scheduler with worker threads: the refresh, then the
  post-simulation pass. The cache then holds the refreshed requests that were
  not stale, not over the expiry and between existing actors, in their order.
\<close>

lemma afterPostSim_refreshLOSCache_cache:
  assumes "mNextLOS s = 0"
  shows "mLOSCache (afterPostSim (refreshLOSCache alive s)) =
     map (\<lambda>r. fst (refreshRequest alive (mLOSCacheExpiry s) r (mCollisionWorld s)))
       (filter (\<lambda>r. \<not> mStale r \<and> mAge r \<le> mLOSCacheExpiry s
                    \<and> alive (fst (mActorPair r)) \<and> alive (snd (mActorPair r)))
          (mLOSCache s))"
proof -
  let ?f = "\<lambda>r. fst (refreshRequest alive (mLOSCacheExpiry s) r (mCollisionWorld s))"
  let ?keep = "\<lambda>r. \<not> mStale r \<and> mAge r \<le> mLOSCacheExpiry s
                        \<and> alive (fst (mActorPair r)) \<and> alive (snd (mActorPair r))"
  have cache: "mLOSCache (refreshLOSCache alive s) = map ?f (mLOSCache s)"
    using assms by (rule refreshLOSCache_cache)
  have "(\<lambda>r. \<not> mStale (?f r)) = ?keep"
    by (auto simp add: refreshRequest_entry fun_eq_iff)
  then have "filter (\<lambda>req. \<not> mStale req) (map ?f (mLOSCache s)) =
      map ?f (filter ?keep (mLOSCache s))"
    by (simp add: filter_map o_def)
  then show ?thesis
    by (simp add: cache afterPostSim_def)
qed

lemma afterPostSim_world: "mCollisionWorld (afterPostSim s) = mCollisionWorld s"
  by (simp add: afterPostSim_def)

text \<open>
  With worker threads, a request whose age exceeded the expiry is gone after
  the frame, and no request left is stale or older than the expiry plus one.
\<close>

lemma afterPostSim_evicts:
  assumes "mNextLOS s = 0"
  shows "(\<forall>r \<in> set (mLOSCache s). mAge r > mLOSCacheExpiry s \<longrightarrow>
          fst (refreshRequest alive (mLOSCacheExpiry s) r (mCollisionWorld s))
            \<notin> set (mLOSCache (afterPostSim (refreshLOSCache alive s))))
     \<and> (\<forall>r' \<in> set (mLOSCache (afterPostSim (refreshLOSCache alive s))).
          \<not> mStale r' \<and> mAge r' \<le> mLOSCacheExpiry s + 1)"
proof -
  let ?f = "\<lambda>r. fst (refreshRequest alive (mLOSCacheExpiry s) r (mCollisionWorld s))"
  let ?keep = "\<lambda>r. \<not> mStale r \<and> mAge r \<le> mLOSCacheExpiry s
                        \<and> alive (fst (mActorPair r)) \<and> alive (snd (mActorPair r))"
  have final: "mLOSCache (afterPostSim (refreshLOSCache alive s)) =
      map ?f (filter ?keep (mLOSCache s))"
    using assms by (rule afterPostSim_refreshLOSCache_cache)
  have gone: "?f r \<notin> set (map ?f (filter ?keep (mLOSCache s)))"
    if "mAge r > mLOSCacheExpiry s" for r
  proof
    assume "?f r \<in> set (map ?f (filter ?keep (mLOSCache s)))"
    then obtain r2 where r2: "?keep r2" "?f r2 = ?f r"
      by auto
    from r2(2) have "mAge (?f r2) = mAge (?f r)" by simp
    then have "mAge r2 = mAge r" by (simp add: refreshRequest_entry)
    with r2(1) that show False by simp
  qed
  have left: "\<not> mStale r' \<and> mAge r' \<le> mLOSCacheExpiry s + 1"
    if "r' \<in> set (map ?f (filter ?keep (mLOSCache s)))" for r'
  proof -
    from that obtain r where r: "?keep r" "r' = ?f r"
      by auto
    then show ?thesis by (simp add: refreshRequest_entry)
  qed
  have absent: "\<forall>r \<in> set (mLOSCache s). mAge r > mLOSCacheExpiry s \<longrightarrow>
      ?f r \<notin> set (mLOSCache (afterPostSim (refreshLOSCache alive s)))"
    unfolding final using gone by blast
  have fresh: "\<forall>r' \<in> set (mLOSCache (afterPostSim (refreshLOSCache alive s))).
      \<not> mStale r' \<and> mAge r' \<le> mLOSCacheExpiry s + 1"
    unfolding final using left by blast
  from absent fresh show ?thesis
    by (intro conjI)
qed





subsection \<open>syncComputation\<close>

lemma syncScheduler_fields:
  "mNumThreads syncScheduler = 0"
  "mLOSCacheExpiry syncScheduler = 0"
  "mActors syncScheduler = []"
  "mActorsFrameData syncScheduler = []"
  "mCollisionWorld syncScheduler = openWorld"
  by (simp_all add: syncScheduler_def PhysicsTaskScheduler_ctor_def computeNumThreads_def)

text \<open>
  A frame of a scheduler without worker threads keeps every request of the
  cache: it marks requests stale and never erases one.
\<close>

lemma syncComputation_cache:
  assumes "syncComputation simulationStep alive s = Some s'" and "mNextLOS s = 0"
  shows "length (mLOSCache s') = length (mLOSCache s)
     \<and> map mActorPair (mLOSCache s') = map mActorPair (mLOSCache s)"
proof -
  obtain frameData w
    where "(simulationStep ^^ nat (mRemainingSteps s)) (mActorsFrameData s, mCollisionWorld s)
      = (frameData, w)"
    by (cases "(simulationStep ^^ nat (mRemainingSteps s))
        (mActorsFrameData s, mCollisionWorld s)")
  with assms(1) obtain s0
    where s': "s' = refreshLOSCache alive s0"
      and s0: "mNextLOS s0 = mNextLOS s" "mLOSCache s0 = mLOSCache s"
    by (auto simp add: syncComputation_def Let_def split: if_splits)
  from s0(1) assms(2) have "mNextLOS s0 = 0" by simp
  then have "mLOSCache (refreshLOSCache alive s0) =
      map (\<lambda>r. fst (refreshRequest alive (mLOSCacheExpiry s0) r (mCollisionWorld s0)))
        (mLOSCache s0)"
    by (rule refreshLOSCache_cache)
  then show ?thesis
    by (simp add: s' s0(2) refreshRequest_entry o_def)
qed

text \<open>
  C6, at a failing input. The scheduler is constructed with no worker thread,
  so its expiry is 0; its cache holds one request, of age 1. The frame that
  \<open>applyQueuedMovements\<close> runs for it, one simulation step in
  \<open>syncComputation\<close>, ends with \<open>refreshLOSCache\<close>, which marks the request
  stale, and never calls \<open>afterPostSim\<close>: the request is still in the cache
  after the frame, and after the next one.
\<close>

theorem syncComputation_keeps_stale:
  "mNumThreads syncFrameStart = 0
   \<and> mLOSCacheExpiry syncFrameStart = 0
   \<and> mLOSCache syncFrameStart =
       [\<lparr>mActorPair = (2, 3), mResult = True, mStale = False, mAge = 1\<rparr>]
   \<and> map_option mLOSCache (syncComputation id allActorsAlive syncFrameStart) =
       Some [\<lparr>mActorPair = (2, 3), mResult = True, mStale = True, mAge = 2\<rparr>]
   \<and> map_option mLOSCache
       (case syncComputation id allActorsAlive syncFrameStart of
          None \<Rightarrow> None
        | Some s \<Rightarrow> syncComputation id allActorsAlive (s\<lparr>mRemainingSteps := 1, mNextLOS := 0\<rparr>)) =
       Some [\<lparr>mActorPair = (2, 3), mResult = True, mStale = True, mAge = 3\<rparr>]"
proof -
  let ?r1 = "\<lparr>mActorPair = (2, 3), mResult = True, mStale = False, mAge = 1\<rparr>"
  let ?r2 = "\<lparr>mActorPair = (2, 3), mResult = True, mStale = True, mAge = 2\<rparr>"
  let ?r3 = "\<lparr>mActorPair = (2, 3), mResult = True, mStale = True, mAge = 3\<rparr>"
  have frame: "map_option mLOSCache (syncComputation id allActorsAlive s) =
      Some [fst (refreshRequest allActorsAlive 0 r (mCollisionWorld s))]"
    if "mRemainingSteps s = 1" "mNextLOS s = 0" "mActors s = []" "mLOSCache s = [r]"
      "mLOSCacheExpiry s = 0" for s r
  proof -
    let ?s0 = "s\<lparr>mRemainingSteps := - 1, mCollisionWorld := mCollisionWorld s,
      mActorsFrameData := mActorsFrameData s\<rparr>"
    have run: "syncComputation id allActorsAlive s = Some (refreshLOSCache allActorsAlive ?s0)"
      using that by (simp add: syncComputation_def Let_def)
    have "mNextLOS ?s0 = 0" using that by simp
    then have "mLOSCache (refreshLOSCache allActorsAlive ?s0) =
        map (\<lambda>r. fst (refreshRequest allActorsAlive (mLOSCacheExpiry ?s0) r (mCollisionWorld ?s0)))
          (mLOSCache ?s0)"
      by (rule refreshLOSCache_cache)
    with that show ?thesis
      by (simp add: run)
  qed
  have fields: "mNumThreads syncFrameStart = 0" "mLOSCacheExpiry syncFrameStart = 0"
    "mLOSCache syncFrameStart = [?r1]" "mRemainingSteps syncFrameStart = 1"
    "mNextLOS syncFrameStart = 0" "mActors syncFrameStart = []"
    by (simp_all add: syncFrameStart_def syncScheduler_fields)
  have r2: "fst (refreshRequest allActorsAlive 0 ?r1 w) = ?r2" for w
    by (simp add: refreshRequest_def allActorsAlive_def Let_def)
  have r3: "fst (refreshRequest allActorsAlive 0 ?r2 w) = ?r3" for w
    by (simp add: refreshRequest_def allActorsAlive_def Let_def)
  have first: "map_option mLOSCache (syncComputation id allActorsAlive syncFrameStart) = Some [?r2]"
    using frame [of syncFrameStart ?r1] fields by (simp add: r2)
  then obtain s1 where s1: "syncComputation id allActorsAlive syncFrameStart = Some s1"
    "mLOSCache s1 = [?r2]"
    by auto
  have rest: "mActors s1 = []" "mLOSCacheExpiry s1 = 0"
    using s1(1) fields
    by (auto simp add: syncComputation_def refreshLOSCache_fields Let_def split: if_splits)
  have second: "map_option mLOSCache
      (syncComputation id allActorsAlive (s1\<lparr>mRemainingSteps := 1, mNextLOS := 0\<rparr>)) = Some [?r3]"
    using frame [of "s1\<lparr>mRemainingSteps := 1, mNextLOS := 0\<rparr>" ?r2] s1(2) rest
    by (simp add: r3)
  from fields(1,2,3) first second show ?thesis
    by (simp add: s1(1))
qed

end
